theory Spec2Isabelle
  imports Complex_Main "HOL-Library.AList"
begin

section \<open>Top languages fetcher: data model\<close>

text \<open>
  The theory embeds \<^verbatim>\<open>src/fetchers/top-languages.js\<close>.

  Conventions of the embedding.
  \<^item> A JavaScript number is a \<open>real\<close>: sums, differences and products are exact. The
    rounding, infinities and NaN of IEEE doubles are outside the model.
  \<^item> A plain object used as a dictionary with an iteration order (the language table, the
    result) is an association list with distinct keys; \<open>obj[k] = v\<close> is \<open>AList.update\<close>
    (an existing key keeps its place, a new key goes to the end). A dictionary that is only
    looked up (\<open>repoToHide\<close>) is a map. Property names inherited from
    \<open>Object.prototype\<close> and the numeric-key ordering of objects are outside the model:
    keys are taken to be ordinary names.
  \<^item> The \<open>Map\<close> \<open>repoMap\<close> is an association list in insertion order.
  \<^item> What the module imports and the runtime provides is a field of \<open>env\<close>: the clock, the
    rendering of a date, the retrying request, the process-wide exclusion list and
    \<open>Math.pow\<close>.
  \<^item> Exceptions are values: the result is \<open>error + value\<close>; the log and the requests
    issued are returned beside it.
\<close>

type_synonym number = real

text \<open>\<open>node { color name }\<close> of a language edge; the colour may be null.\<close>

record node =
  name :: string
  color :: "string option"

text \<open>\<open>edges { size node }\<close>.\<close>

record edge =
  edge_size :: number
  node :: node

text \<open>\<open>languages { edges }\<close>; the source reads it as \<open>repo.languages?.edges?.length\<close>.\<close>

record languages =
  edges :: "edge list option"

text \<open>\<open>repository { name nameWithOwner languages }\<close>.\<close>

record repo =
  repo_name :: string
  nameWithOwner :: "string option"
  languages :: "languages option"

text \<open>An element of a \<open>...ContributionsByRepository\<close> list.\<close>

record item =
  repository :: "repo option"

record contributionsCollection =
  commitContributionsByRepository :: "item list"
  pullRequestContributionsByRepository :: "item list"
  issueContributionsByRepository :: "item list"

text \<open>
  What the source reads of a response: whether \<open>res.data.errors\<close> is truthy, and
  \<open>res.data.data?.user?.contributionsCollection\<close>.
\<close>

record response =
  errors :: bool
  collection :: "contributionsCollection option"

text \<open>
  A thrown value: its \<open>message\<close> property and what it prints as in a template literal.
\<close>

record thrown =
  message :: "string option"
  printed :: string

text \<open>
  What happens inside the \<open>try\<close> block of one period: the awaited request resolves to a
  response, or something is thrown (a rejection of \<open>retryer\<close>, or a \<open>TypeError\<close> on a
  payload that has not the shape the block reads).
\<close>

datatype outcome = Resolves response | Throws thrown

text \<open>The query variables \<open>{ login, from }\<close>; \<open>from\<close> is set only for a truthy date.\<close>

record variables =
  login :: string
  "from" :: "string option"

text \<open>An entry of the language table: \<open>{ name, color, size, count }\<close>.\<close>

record total = node +
  total_size :: number
  count :: nat

type_synonym topLangs = "(string \<times> total) list"

datatype error = MissingParamError "string list" | TypeError

record effects =
  requests :: "variables list"
  log :: "string list"

record env =
  now :: int
  toISOString :: "int \<Rightarrow> string"
  retryer :: "variables \<Rightarrow> outcome"
  excludeRepositories :: "string list"
  Math_pow :: "number \<Rightarrow> number \<Rightarrow> number"

section \<open>Truthiness\<close>

definition truthy :: "string \<Rightarrow> bool" where
  "truthy s = (s \<noteq> [])"

definition truthy_opt :: "string option \<Rightarrow> bool" where
  "truthy_opt s = (case s of None \<Rightarrow> False | Some t \<Rightarrow> truthy t)"

text \<open>\<open>a || b\<close> on strings, where \<open>a\<close> may be null or undefined.\<close>

definition or_else :: "string option \<Rightarrow> string \<Rightarrow> string" where
  "or_else a b = (case a of None \<Rightarrow> b | Some s \<Rightarrow> if truthy s then s else b)"

section \<open>The period list\<close>

definition oneYear :: int where
  "oneYear = 365 * 24 * 60 * 60 * 1000"

definition sixMonths :: int where
  "sixMonths = oneYear div 2"

text \<open>
  The two nested \<open>for\<close> loops, \<open>years\<close> over 0..4 and \<open>halfYear\<close> over 0..1, with the
  \<open>continue\<close> at \<open>years === 0 && halfYear === 0\<close>.
\<close>

definition periods :: "(int \<Rightarrow> string) \<Rightarrow> int \<Rightarrow> string option list" where
  "periods render t =
     None #
     concat (map (\<lambda>years.
       concat (map (\<lambda>halfYear.
         if years = 0 \<and> halfYear = 0 then []
         else [Some (render (t - int years * oneYear - int halfYear * sixMonths))])
         [0..<2]))
       [0..<5])"

section \<open>One period's fetch\<close>

text \<open>\<open>fromDate || "all time"\<close>.\<close>

definition period_label :: "string option \<Rightarrow> string" where
  "period_label fromDate = or_else fromDate ''all time''"

text \<open>\<open>e.message || e\<close>.\<close>

definition error_text :: "thrown \<Rightarrow> string" where
  "error_text e = or_else (message e) (printed e)"

definition failure_line :: "string option \<Rightarrow> thrown \<Rightarrow> string" where
  "failure_line fromDate e =
     ''Failed to fetch contributions for period '' @ period_label fromDate @ '': '' @ error_text e"

definition make_variables :: "string \<Rightarrow> string option \<Rightarrow> variables" where
  "make_variables username fromDate =
     \<lparr>login = username, from = (if truthy_opt fromDate then fromDate else None)\<rparr>"

text \<open>
  The body of \<open>periods.map(async (fromDate) => ...)\<close>: the items the period contributes and
  the lines it logs.
\<close>

definition fetchPromise ::
  "(variables \<Rightarrow> outcome) \<Rightarrow> string \<Rightarrow> string option \<Rightarrow> item list \<times> string list" where
  "fetchPromise fetch username fromDate =
     (case fetch (make_variables username fromDate) of
        Resolves res \<Rightarrow>
          (if errors res then ([], [])
           else (case collection res of
                   None \<Rightarrow> ([], [])
                 | Some contrib \<Rightarrow>
                     (commitContributionsByRepository contrib @
                      pullRequestContributionsByRepository contrib @
                      issueContributionsByRepository contrib, [])))
      | Throws e \<Rightarrow> ([], [failure_line fromDate e]))"

section \<open>Deduplication into \<open>repoMap\<close>\<close>

text \<open>\<open>repo.languages?.edges?.length\<close>: 0 when a link of the chain is null.\<close>

definition edges_length :: "repo \<Rightarrow> nat" where
  "edges_length r =
     (case languages r of
        None \<Rightarrow> 0
      | Some l \<Rightarrow> (case edges l of None \<Rightarrow> 0 | Some es \<Rightarrow> length es))"

text \<open>\<open>repo.nameWithOwner || repo.name\<close>.\<close>

definition key_of :: "repo \<Rightarrow> string" where
  "key_of r = or_else (nameWithOwner r) (repo_name r)"

definition has :: "(string \<times> repo) list \<Rightarrow> string \<Rightarrow> bool" where
  "has m k = (k \<in> fst ` set m)"

text \<open>The body of the inner loop over the items of one period.\<close>

definition processItem :: "(string \<times> repo) list \<Rightarrow> item \<Rightarrow> (string \<times> repo) list" where
  "processItem repoMap it =
     (case repository it of
        None \<Rightarrow> repoMap
      | Some r \<Rightarrow>
          if edges_length r = 0 then repoMap
          else if truthy (key_of r) \<and> \<not> has repoMap (key_of r)
               then repoMap @ [(key_of r, r)]
               else repoMap)"

definition processAll :: "item list list \<Rightarrow> (string \<times> repo) list" where
  "processAll allCollections = foldl (foldl processItem) [] allCollections"

section \<open>Exclusion\<close>

text \<open>\<open>allExcludedRepos.forEach((repoName) => { repoToHide[repoName] = true; })\<close>.\<close>

definition repoToHide :: "string list \<Rightarrow> (string \<rightharpoonup> bool)" where
  "repoToHide allExcludedRepos = foldl (\<lambda>m repoName. m(repoName \<mapsto> True)) Map.empty allExcludedRepos"

text \<open>\<open>repoNodes.filter((repo) => !repoToHide[repo.name])\<close>.\<close>

definition hideRepos :: "string list \<Rightarrow> string list \<Rightarrow> repo list \<Rightarrow> repo list" where
  "hideRepos exclude_repo excluded repoNodes =
     filter (\<lambda>r. repoToHide (exclude_repo @ excluded) (repo_name r) \<noteq> Some True) repoNodes"

section \<open>Flattening and folding the language edges\<close>

text \<open>\<open>node.languages.edges\<close>: a \<open>TypeError\<close> when a link of the chain is null.\<close>

definition edges_of :: "repo \<Rightarrow> error + edge list" where
  "edges_of r =
     (case languages r of
        None \<Rightarrow> Inl TypeError
      | Some l \<Rightarrow> (case edges l of None \<Rightarrow> Inl TypeError | Some es \<Rightarrow> Inr es))"

text \<open>\<open>.filter((node) => node.languages.edges.length > 0)\<close>.\<close>

fun filterNonEmpty :: "repo list \<Rightarrow> error + repo list" where
  "filterNonEmpty [] = Inr []"
| "filterNonEmpty (r # rs) =
     (case edges_of r of
        Inl e \<Rightarrow> Inl e
      | Inr es \<Rightarrow>
          (case filterNonEmpty rs of
             Inl e \<Rightarrow> Inl e
           | Inr rs' \<Rightarrow> Inr (if length es > 0 then r # rs' else rs')))"

text \<open>\<open>.reduce((acc, curr) => curr.languages.edges.concat(acc), [])\<close>.\<close>

fun flatten :: "edge list \<Rightarrow> repo list \<Rightarrow> error + edge list" where
  "flatten acc [] = Inr acc"
| "flatten acc (r # nodes) =
     (case edges_of r of
        Inl e \<Rightarrow> Inl e
      | Inr es \<Rightarrow> flatten (es @ acc) nodes)"

text \<open>
  The callback of the second \<open>reduce\<close>. The variable \<open>repoCount\<close> is declared outside the
  callback, so it is threaded through the fold beside the accumulator.
\<close>

definition mergeEdge :: "topLangs \<times> nat \<Rightarrow> edge \<Rightarrow> topLangs \<times> nat" where
  "mergeEdge st prev =
     (let acc = fst st;
          repoCount = snd st;
          n = name (node prev);
          langSize = (case map_of acc n of
                        None \<Rightarrow> edge_size prev
                      | Some entry \<Rightarrow>
                          if n = name entry then edge_size prev + total_size entry
                          else edge_size prev);
          repoCount' = (case map_of acc n of
                          None \<Rightarrow> 1
                        | Some entry \<Rightarrow> if n = name entry then repoCount + 1 else 1)
      in (AList.update n
            \<lparr>name = n, color = color (node prev), total_size = langSize, count = repoCount'\<rparr> acc,
          repoCount'))"

definition foldEdges :: "edge list \<Rightarrow> topLangs \<times> nat" where
  "foldEdges es = foldl mergeEdge ([], 0) es"

section \<open>Scoring and ranking\<close>

text \<open>
  \<open>repoNodes[name].size = Math.pow(size, size_weight) * Math.pow(count, count_weight)\<close>, for
  every key of the table.
\<close>

definition score :: "(number \<Rightarrow> number \<Rightarrow> number) \<Rightarrow> number \<Rightarrow> number \<Rightarrow> total \<Rightarrow> total" where
  "score pow size_weight count_weight t =
     t\<lparr>total_size := pow (total_size t) size_weight * pow (real (count t)) count_weight\<rparr>"

definition scoreAll :: "(number \<Rightarrow> number \<Rightarrow> number) \<Rightarrow> number \<Rightarrow> number \<Rightarrow> topLangs \<Rightarrow> topLangs" where
  "scoreAll pow size_weight count_weight repoNodes =
     map (\<lambda>(k, t). (k, score pow size_weight count_weight t)) repoNodes"

text \<open>
  \<open>Array.prototype.sort\<close> with a comparator: the language guarantees a stable sort, modelled
  by insertion from the right. \<open>x\<close> goes before \<open>y\<close> unless the comparator is positive.
\<close>

fun insort_cmp :: "('a \<Rightarrow> 'a \<Rightarrow> number) \<Rightarrow> 'a \<Rightarrow> 'a list \<Rightarrow> 'a list" where
  "insort_cmp cmp x [] = [x]"
| "insort_cmp cmp x (y # ys) =
     (if cmp x y \<le> 0 then x # y # ys else y # insort_cmp cmp x ys)"

definition js_sort :: "('a \<Rightarrow> 'a \<Rightarrow> number) \<Rightarrow> 'a list \<Rightarrow> 'a list" where
  "js_sort cmp xs = foldr (insort_cmp cmp) xs []"

text \<open>
  \<open>(a, b) => repoNodes[b].size - repoNodes[a].size\<close>; a key is carried with its entry.
\<close>

definition by_size :: "string \<times> total \<Rightarrow> string \<times> total \<Rightarrow> number" where
  "by_size a b = total_size (snd b) - total_size (snd a)"

text \<open>
  \<open>Object.keys(repoNodes).sort(...).reduce((result, key) => { result[key] = repoNodes[key];
  return result; }, {})\<close>.
\<close>

definition rank :: "topLangs \<Rightarrow> topLangs" where
  "rank repoNodes =
     foldl (\<lambda>result (key, t). AList.update key t result) [] (js_sort by_size repoNodes)"

section \<open>The operation\<close>

text \<open>Everything after \<open>await Promise.all(fetchPromises)\<close>.\<close>

definition aggregate ::
  "(number \<Rightarrow> number \<Rightarrow> number) \<Rightarrow> string list \<Rightarrow> string list \<Rightarrow> number \<Rightarrow> number \<Rightarrow>
   item list list \<Rightarrow> error + topLangs" where
  "aggregate pow excluded exclude_repo size_weight count_weight allCollections =
     (let repoNodes = map snd (processAll allCollections);
          repoNodes = hideRepos exclude_repo excluded repoNodes
      in case filterNonEmpty repoNodes of
           Inl e \<Rightarrow> Inl e
         | Inr nonEmpty \<Rightarrow>
             (case flatten [] nonEmpty of
                Inl e \<Rightarrow> Inl e
              | Inr es \<Rightarrow>
                  Inr (rank (scoreAll pow size_weight count_weight (fst (foldEdges es))))))"

text \<open>
  \<open>fetchTopLanguages(username, exclude_repo, size_weight, count_weight)\<close>. The log lines
  are listed in period order; the order in which concurrent fetches log is not modelled.
\<close>

definition fetchTopLanguages ::
  "env \<Rightarrow> string option \<Rightarrow> string list \<Rightarrow> number \<Rightarrow> number \<Rightarrow> (error + topLangs) \<times> effects" where
  "fetchTopLanguages e username exclude_repo size_weight count_weight =
     (if \<not> truthy_opt username
      then (Inl (MissingParamError [''username'']), \<lparr>requests = [], log = []\<rparr>)
      else
        (let user = or_else username [];
             ps = periods (toISOString e) (now e);
             fetched = map (fetchPromise (retryer e) user) ps;
             allCollections = map fst fetched
         in (aggregate (Math_pow e) (excludeRepositories e) exclude_repo
               size_weight count_weight allCollections,
             \<lparr>requests = map (make_variables user) ps,
              log = concat (map snd fetched)\<rparr>)))"

section \<open>Notions used in the statements\<close>

text \<open>
  The repositories an item offers to the deduplication: the repository, when it is present,
  has at least one language edge and a truthy key.
\<close>

definition insertable :: "item \<Rightarrow> repo list" where
  "insertable it =
     (case repository it of
        None \<Rightarrow> []
      | Some r \<Rightarrow> if edges_length r \<noteq> 0 \<and> truthy (key_of r) then [r] else [])"

text \<open>All repositories offered, in scan order.\<close>

definition candidates :: "item list list \<Rightarrow> repo list" where
  "candidates allCollections = concat (map insertable (concat allCollections))"

text \<open>A repository under its key, and the insertion of the loop body.\<close>

definition keyed :: "repo \<Rightarrow> string \<times> repo" where
  "keyed r = (key_of r, r)"

definition insert_repo :: "(string \<times> repo) list \<Rightarrow> repo \<Rightarrow> (string \<times> repo) list" where
  "insert_repo m r = (if has m (key_of r) then m else m @ [keyed r])"

text \<open>The edges of a repository, none when a link of the chain is null.\<close>

definition repo_edges :: "repo \<Rightarrow> edge list" where
  "repo_edges r =
     (case languages r of
        None \<Rightarrow> []
      | Some l \<Rightarrow> (case edges l of None \<Rightarrow> [] | Some es \<Rightarrow> es))"




text \<open>
  What \<open>await Promise.all(fetchPromises)\<close> yields in a run, and the repositories left
  by the deduplication of it.
\<close>

definition allCollections :: "env \<Rightarrow> string \<Rightarrow> item list list" where
  "allCollections e user =
     map (\<lambda>fromDate. fst (fetchPromise (retryer e) user fromDate))
       (periods (toISOString e) (now e))"

definition deduplicated :: "env \<Rightarrow> string \<Rightarrow> repo list" where
  "deduplicated e user = map snd (processAll (allCollections e user))"

text \<open>The repositories whose short name is in neither exclusion list.\<close>

definition kept :: "string list \<Rightarrow> string list \<Rightarrow> repo list \<Rightarrow> repo list" where
  "kept exclude_repo excluded rs =
     filter (\<lambda>r. repo_name r \<notin> set exclude_repo \<union> set excluded) rs"


section \<open>Concrete inputs\<close>

text \<open>
  A rendering of dates for concrete runs: one mark per whole half-year since the epoch.
\<close>

definition example_iso :: "int \<Rightarrow> string" where
  "example_iso t = CHR ''T'' # replicate (nat (t div sixMonths)) CHR ''+''"

text \<open>Edges, repositories and items in the usual shape.\<close>

definition mk_edge :: "string \<Rightarrow> number \<Rightarrow> edge" where
  "mk_edge n s = \<lparr>edge_size = s, node = \<lparr>name = n, color = None\<rparr>\<rparr>"

definition mk_repo :: "string \<Rightarrow> string \<Rightarrow> edge list \<Rightarrow> repo" where
  "mk_repo owner short es =
     \<lparr>repo_name = short, nameWithOwner = Some (owner @ ''/'' @ short),
      languages = Some \<lparr>edges = Some es\<rparr>\<rparr>"

definition mk_item :: "repo \<Rightarrow> item" where
  "mk_item r = \<lparr>repository = Some r\<rparr>"

text \<open>
  Two repositories, one with language X (100 bytes), one with X (50) and Y (30); and two
  records without language edges.
\<close>

definition repoA :: repo where
  "repoA = mk_repo ''u'' ''A'' [mk_edge ''X'' 100]"

definition repoB :: repo where
  "repoB = mk_repo ''u'' ''B'' [mk_edge ''X'' 50, mk_edge ''Y'' 30]"

definition repoA_bare :: repo where
  "repoA_bare = mk_repo ''u'' ''A'' []"

definition repoC_bare :: repo where
  "repoC_bare = mk_repo ''u'' ''C'' []"

text \<open>A power function on the reals that is exact at the exponents 0 and 1.\<close>

definition example_pow :: "number \<Rightarrow> number \<Rightarrow> number" where
  "example_pow x y = (if y = 0 then 1 else if y = 1 then x else x powr y)"

text \<open>
  An upstream that answers the all-time query and fails every windowed one, and an
  upstream that answers every query with GraphQL errors.
\<close>

definition example_retryer :: "variables \<Rightarrow> outcome" where
  "example_retryer v =
     (case from v of
        None \<Rightarrow>
          Resolves \<lparr>errors = False,
                    collection = Some \<lparr>commitContributionsByRepository = [mk_item repoA],
                                        pullRequestContributionsByRepository = [mk_item repoB],
                                        issueContributionsByRepository = [mk_item repoA]\<rparr>\<rparr>
      | Some d \<Rightarrow> Throws \<lparr>message = Some ''timeout'', printed = ''Error: timeout''\<rparr>)"


definition example_env :: env where
  "example_env =
     \<lparr>now = 157680000000, toISOString = example_iso, retryer = example_retryer,
      excludeRepositories = [], Math_pow = example_pow\<rparr>"




section \<open>The period list: properties\<close>

lemma two_sixMonths: "oneYear = 2 * sixMonths"
  by (simp add: oneYear_def sixMonths_def)

lemma periods_list:
  "periods render t = None # map (\<lambda>k. Some (render (t - int k * sixMonths))) [1..<10]"
  by (simp add: periods_def upt_rec two_sixMonths)

text \<open>
  C1 (as amended). The period list starts with the all-time period and continues with
  exactly nine window starts, the clock reading minus one to nine half-years (a half-year
  being 182.5 days): the loops visit ten offsets and skip offset zero, so the oldest window
  starts four and a half years back.
\<close>

theorem periods_all_time_then_nine_windows:
  "periods render t = None # map (\<lambda>k. Some (render (t - int k * sixMonths))) [1..<10] \<and>
   length (periods render t) = 1 + 9 \<and>
   sixMonths = 15768000000"
  by (simp add: periods_list sixMonths_def oneYear_def)

text \<open>
  C1 as stated asks for ten windows after the all-time period; a run has nine.
\<close>

theorem periods_ten_windows_counterexample:
  "length (tl (periods example_iso 1700000000000)) \<noteq> 10"
  by (simp add: periods_list)

section \<open>Deduplication: lemmas\<close>

lemma processItem_insertable: "processItem m it = foldl insert_repo m (insertable it)"
  by (simp add: processItem_def insertable_def insert_repo_def keyed_def split: option.splits)

lemma foldl_processItem: "foldl processItem m its = foldl insert_repo m (concat (map insertable its))"
  by (induction its arbitrary: m) (simp_all add: processItem_insertable)

lemma foldl_foldl_processItem:
  "foldl (foldl processItem) m cs = foldl insert_repo m (concat (map insertable (concat cs)))"
  by (induction cs arbitrary: m) (simp_all add: foldl_processItem)

lemma processAll_candidates: "processAll cs = foldl insert_repo [] (candidates cs)"
  by (simp add: processAll_def candidates_def foldl_foldl_processItem)

lemma insert_repo_keys:
  "fst ` set (foldl insert_repo m rs) = fst ` set m \<union> key_of ` set rs"
  by (induction rs arbitrary: m) (auto simp: insert_repo_def has_def keyed_def)

lemma insert_repo_distinct:
  "distinct (map fst m) \<Longrightarrow> distinct (map fst (foldl insert_repo m rs))"
  by (induction rs arbitrary: m) (auto simp: insert_repo_def has_def keyed_def)

lemma insert_repo_map_of:
  "map_of (foldl insert_repo m rs) = map_of (m @ map keyed rs)"
proof (induction rs arbitrary: m)
  case Nil
  then show ?case by simp
next
  case (Cons r rs)
  show ?case
  proof (cases "has m (key_of r)")
    case True
    then have "map_of m (key_of r) \<noteq> None"
      by (simp add: has_def map_of_eq_None_iff)
    then have "map_of (m @ keyed r # map keyed rs) = map_of (m @ map keyed rs)"
      by (auto simp: keyed_def map_add_def fun_eq_iff split: option.splits)
    with True Cons show ?thesis by (simp add: insert_repo_def)
  next
    case False
    with Cons show ?thesis by (simp add: insert_repo_def)
  qed
qed

lemma insert_repo_old: "has m (key_of r) \<Longrightarrow> insert_repo m r = m"
  by (simp add: insert_repo_def)

lemma insert_repo_new: "\<not> has m (key_of r) \<Longrightarrow> insert_repo m r = m @ [keyed r]"
  by (simp add: insert_repo_def)

lemma insert_repo_set:
  "set (foldl insert_repo m rs) \<subseteq> set m \<union> keyed ` set rs"
proof (induction rs arbitrary: m)
  case Nil
  then show ?case by simp
next
  case (Cons r rs)
  have "set (insert_repo m r) \<subseteq> set m \<union> {keyed r}"
    by (cases "has m (key_of r)") (auto simp: insert_repo_old insert_repo_new)
  with Cons [of "insert_repo m r"] show ?case by auto
qed

lemma insert_repo_fresh:
  "distinct (map key_of rs) \<Longrightarrow> key_of ` set rs \<inter> fst ` set m = {} \<Longrightarrow>
   foldl insert_repo m rs = m @ map keyed rs"
proof (induction rs arbitrary: m)
  case Nil
  then show ?case by simp
next
  case (Cons r rs)
  from Cons.prems have fresh: "\<not> has m (key_of r)"
    by (auto simp: has_def)
  from Cons.prems have "key_of ` set rs \<inter> fst ` set (m @ [keyed r]) = {}"
    by (auto simp: keyed_def)
  with Cons have "foldl insert_repo (m @ [keyed r]) rs = (m @ [keyed r]) @ map keyed rs"
    by simp
  with fresh show ?case by (simp add: insert_repo_new)
qed

lemma candidates_ok: "r \<in> set (candidates cs) \<Longrightarrow> edges_length r \<noteq> 0 \<and> truthy (key_of r)"
  by (auto simp: candidates_def insertable_def split: option.splits if_splits)

lemma processAll_keyed: "processAll cs = map keyed (map snd (processAll cs))"
proof -
  have "set (processAll cs) \<subseteq> keyed ` set (candidates cs)"
    using insert_repo_set [of "[]" "candidates cs"] by (simp add: processAll_candidates)
  then have "\<forall>p \<in> set (processAll cs). keyed (snd p) = p"
    by (auto simp: keyed_def)
  then show ?thesis
    by (simp add: map_idI)
qed

lemma processAll_members: "set (map snd (processAll cs)) \<subseteq> set (candidates cs)"
  using insert_repo_set [of "[]" "candidates cs"]
  by (auto simp: processAll_candidates keyed_def)

lemma processAll_distinct: "distinct (map fst (processAll cs))"
  by (simp add: processAll_candidates insert_repo_distinct)

lemma processAll_distinct_keys: "distinct (map key_of (map snd (processAll cs)))"
proof -
  have "map fst (processAll cs) = map key_of (map snd (processAll cs))"
    by (subst processAll_keyed) (simp add: keyed_def comp_def)
  with processAll_distinct [of cs] show ?thesis by simp
qed

lemma processAll_length:
  "length (processAll cs) = card (key_of ` set (candidates cs))"
proof -
  have "length (processAll cs) = length (map fst (processAll cs))" by simp
  also have "\<dots> = card (set (map fst (processAll cs)))"
    using processAll_distinct by (simp only: distinct_card)
  also have "\<dots> = card (key_of ` set (candidates cs))"
    by (simp add: processAll_candidates insert_repo_keys)
  finally show ?thesis .
qed

lemma processAll_first:
  "map_of (processAll cs) = map_of (map keyed (candidates cs))"
  by (simp add: processAll_candidates insert_repo_map_of)

section \<open>Flattening and folding: lemmas\<close>

lemma edges_length_repo_edges: "edges_length r = length (repo_edges r)"
  by (simp add: edges_length_def repo_edges_def split: option.splits)

lemma edges_of_nonempty: "edges_length r \<noteq> 0 \<Longrightarrow> edges_of r = Inr (repo_edges r)"
  by (cases "languages r"; cases "edges (the (languages r))")
     (simp_all add: edges_length_def repo_edges_def edges_of_def)

lemma filterNonEmpty_all:
  "\<forall>r \<in> set rs. edges_length r \<noteq> 0 \<Longrightarrow> filterNonEmpty rs = Inr rs"
  by (induction rs) (simp_all add: edges_of_nonempty edges_length_repo_edges [symmetric])

lemma flatten_all:
  "\<forall>r \<in> set rs. edges_length r \<noteq> 0 \<Longrightarrow>
   flatten acc rs = Inr (concat (rev (map repo_edges rs)) @ acc)"
  by (induction rs arbitrary: acc) (simp_all add: edges_of_nonempty)
















section \<open>Sorting and ranking: lemmas\<close>











section \<open>The pipeline after the join: lemmas\<close>

lemma repoToHide_iff: "repoToHide xs n = Some True \<longleftrightarrow> n \<in> set xs"
proof -
  have "foldl (\<lambda>m repoName. m(repoName \<mapsto> True)) m0 xs n = Some True \<longleftrightarrow>
        n \<in> set xs \<or> m0 n = Some True" for m0
    by (induction xs arbitrary: m0) auto
  then show ?thesis by (simp add: repoToHide_def)
qed

lemma hideRepos_kept: "hideRepos ex g rs = kept ex g rs"
  by (simp add: hideRepos_def kept_def repoToHide_iff)

lemma processAll_nonempty: "r \<in> set (map snd (processAll cs)) \<Longrightarrow> edges_length r \<noteq> 0"
  using processAll_members [of cs] candidates_ok [of r cs] by auto

lemma aggregate_Inr:
  "aggregate pow g ex sw cw cs =
     Inr (rank (scoreAll pow sw cw
       (fst (foldEdges (concat (rev (map repo_edges (kept ex g (map snd (processAll cs))))))))))"
proof -
  let ?rs = "kept ex g (map snd (processAll cs))"
  have ne: "\<forall>r \<in> set ?rs. edges_length r \<noteq> 0"
    using processAll_nonempty [of _ cs] by (auto simp: kept_def)
  have "filterNonEmpty ?rs = Inr ?rs"
    using ne by (rule filterNonEmpty_all)
  moreover have "flatten [] ?rs = Inr (concat (rev (map repo_edges ?rs)))"
    using flatten_all [OF ne, of "[]"] by simp
  ultimately show ?thesis
    by (simp add: aggregate_def hideRepos_kept)
qed

lemma fetch_result:
  "truthy user \<Longrightarrow>
   fst (fetchTopLanguages e (Some user) ex sw cw) =
     aggregate (Math_pow e) (excludeRepositories e) ex sw cw (allCollections e user)"
  by (simp add: fetchTopLanguages_def truthy_opt_def or_else_def allCollections_def Let_def comp_def)


lemma map_of_keyed_find: "map_of (map keyed rs) k = find (\<lambda>r. key_of r = k) rs"
  by (induction rs) (auto simp: keyed_def)

lemma candidates_of_repos:
  "\<forall>r \<in> set rs. edges_length r \<noteq> 0 \<and> truthy (key_of r) \<Longrightarrow>
   candidates [map (\<lambda>r. \<lparr>repository = Some r\<rparr>) rs] = rs"
  by (induction rs) (simp_all add: candidates_def insertable_def)

lemma processAll_of_repos:
  assumes "distinct (map key_of rs)"
    and "\<forall>r \<in> set rs. edges_length r \<noteq> 0 \<and> truthy (key_of r)"
  shows "processAll [map (\<lambda>r. \<lparr>repository = Some r\<rparr>) rs] = map keyed rs"
  using insert_repo_fresh [OF assms(1), of "[]"]
  by (simp add: processAll_candidates candidates_of_repos [OF assms(2)])

lemma processAll_of_kept:
  "processAll [map (\<lambda>r. \<lparr>repository = Some r\<rparr>) (kept ex g (map snd (processAll cs)))] =
   map keyed (kept ex g (map snd (processAll cs)))"
proof (rule processAll_of_repos)
  show "distinct (map key_of (kept ex g (map snd (processAll cs))))"
    using processAll_distinct_keys [of cs] by (simp add: kept_def distinct_map_filter)
  show "\<forall>r \<in> set (kept ex g (map snd (processAll cs))). edges_length r \<noteq> 0 \<and> truthy (key_of r)"
    using processAll_members [of cs] candidates_ok [of _ cs] by (auto simp: kept_def)
qed

lemma kept_idem: "kept [] [] rs = rs"
  by (simp add: kept_def)






section \<open>Evaluations of the concrete inputs\<close>

lemma example_user: "truthy ''u''"
  by (simp add: truthy_def)


lemma example_deduplicated: "deduplicated example_env ''u'' = [repoA, repoB]"
  by code_simp

lemma example_names: "repo_name repoA = ''A''" "repo_name repoB = ''B''"
  by code_simp+

lemma example_keys: "key_of repoA = ''u/A''" "key_of repoB = ''u/B''"
  by code_simp+


lemma example_fields:
  "Math_pow example_env = example_pow" "excludeRepositories example_env = []"
  by (simp_all add: example_env_def)

section \<open>The claims\<close>

subsection \<open>Missing username\<close>



subsection \<open>Deduplication\<close>

text \<open>
  C3 (as amended). Call a record insertable when its repository is present, has at least
  one language edge and a non-empty key (\<open>nameWithOwner\<close>, else \<open>name\<close>). Every entry
  of the repository map is an insertable record under its own key; the map holds each key
  at most once; under a key it holds the first insertable record with that key in scan
  order, later ones being discarded whatever their language edges; and its size is the
  number of distinct keys of the insertable records of all periods.
\<close>

theorem deduplication_first_insertable_wins:
  "set (processAll cs) \<subseteq> keyed ` set (candidates cs) \<and>
   distinct (map fst (processAll cs)) \<and>
   map_of (processAll cs) k = find (\<lambda>r. key_of r = k) (candidates cs) \<and>
   length (processAll cs) = card (key_of ` set (candidates cs))"
proof -
  have "set (processAll cs) \<subseteq> keyed ` set (candidates cs)"
    using insert_repo_set [of "[]" "candidates cs"] by (simp add: processAll_candidates)
  moreover have "map_of (processAll cs) k = find (\<lambda>r. key_of r = k) (candidates cs)"
    by (simp add: processAll_first map_of_keyed_find)
  ultimately show ?thesis
    using processAll_distinct [of cs] processAll_length [of cs] by simp
qed

theorem deduplication_first_insertable_wins_witness:
  "map_of (processAll [[mk_item repoA_bare, mk_item repoC_bare], [mk_item repoA, mk_item repoB]]) ''u/A''
     = Some repoA \<and>
   length (processAll [[mk_item repoA_bare, mk_item repoC_bare], [mk_item repoA, mk_item repoB]]) = 2"
proof -
  have c: "candidates [[mk_item repoA_bare, mk_item repoC_bare], [mk_item repoA, mk_item repoB]]
      = [repoA, repoB]"
    by code_simp
  show ?thesis
    using deduplication_first_insertable_wins
      [of "[[mk_item repoA_bare, mk_item repoC_bare], [mk_item repoA, mk_item repoB]]" "''u/A''"]
    by (simp add: c example_keys)
qed

text \<open>
  C3 as stated fails where a record has no language edge. The first period returns
  repository \<open>u/A\<close> without language edges and repository \<open>u/C\<close> without language edges; the
  second returns \<open>u/A\<close> with one edge. The map then holds the later record of \<open>u/A\<close>, not
  the first, and it has one entry where the periods carry two distinct keys.
\<close>

theorem deduplication_first_occurrence_counterexample:
  "map_of (processAll [[mk_item repoA_bare, mk_item repoC_bare], [mk_item repoA]]) (key_of repoA_bare)
     \<noteq> Some repoA_bare \<and>
   length (processAll [[mk_item repoA_bare, mk_item repoC_bare], [mk_item repoA]])
     \<noteq> length (remdups (map key_of [repoA_bare, repoC_bare, repoA]))"
  by code_simp

subsection \<open>Exclusion\<close>

text \<open>
  C4. For all weights, the output of a run is the output computed, with both exclusion
  lists empty, from the deduplicated repositories whose name is in neither the caller's
  list nor the process-wide list: a repository named in either list is not part of what
  the output is computed from, so none of its language edges adds to any entry.
\<close>

theorem excluded_repositories_do_not_contribute:
  "truthy user \<Longrightarrow>
   fst (fetchTopLanguages e (Some user) exclude_repo size_weight count_weight) =
     aggregate (Math_pow e) [] [] size_weight count_weight
       [map (\<lambda>r. \<lparr>repository = Some r\<rparr>)
          (filter (\<lambda>r. repo_name r \<notin> set exclude_repo \<and> repo_name r \<notin> set (excludeRepositories e))
             (deduplicated e user))]"
proof -
  assume u: "truthy user"
  let ?rs = "kept exclude_repo (excludeRepositories e) (deduplicated e user)"
  have same: "filter (\<lambda>r. repo_name r \<notin> set exclude_repo \<and> repo_name r \<notin> set (excludeRepositories e))
      (deduplicated e user) = ?rs"
    by (simp add: kept_def)
  have "map snd (processAll [map (\<lambda>r. \<lparr>repository = Some r\<rparr>) ?rs]) = map snd (map keyed ?rs)"
    unfolding deduplicated_def by (simp only: processAll_of_kept)
  also have "\<dots> = ?rs"
    by (simp add: keyed_def comp_def)
  finally have restored: "map snd (processAll [map (\<lambda>r. \<lparr>repository = Some r\<rparr>) ?rs]) = ?rs" .
  have "aggregate (Math_pow e) [] [] size_weight count_weight [map (\<lambda>r. \<lparr>repository = Some r\<rparr>) ?rs]
      = aggregate (Math_pow e) (excludeRepositories e) exclude_repo size_weight count_weight
          (allCollections e user)"
    unfolding aggregate_Inr restored kept_idem by (simp add: deduplicated_def)
  with u show ?thesis
    by (simp only: fetch_result same)
qed

theorem excluded_repositories_do_not_contribute_witness:
  "truthy ''u'' \<and>
   fst (fetchTopLanguages example_env (Some ''u'') [''A''] 1 0) =
     aggregate example_pow [] [] 1 0 [[mk_item repoB]] \<and>
   aggregate example_pow [] [] 1 0 [[mk_item repoB]] =
     Inr [(''X'', \<lparr>name = ''X'', color = None, total_size = 50, count = 1\<rparr>),
          (''Y'', \<lparr>name = ''Y'', color = None, total_size = 30, count = 1\<rparr>)]"
proof -
  have "aggregate example_pow [] [] 1 0 [[mk_item repoB]] =
     Inr [(''X'', \<lparr>name = ''X'', color = None, total_size = 50, count = 1\<rparr>),
          (''Y'', \<lparr>name = ''Y'', color = None, total_size = 30, count = 1\<rparr>)]"
    by code_simp
  then show ?thesis
    using excluded_repositories_do_not_contribute [OF example_user, of example_env "[''A'']" 1 0]
    by (simp add: example_user example_deduplicated example_names example_fields mk_item_def)
qed



subsection \<open>Plain weights\<close>



subsection \<open>A failing period\<close>




subsection \<open>The shared counter\<close>



subsection \<open>Ranking\<close>



subsection \<open>Determinism\<close>



end
